theory Spec2Isabelle
  imports Complex_Main "HOL-Library.Monad_Syntax"
begin

section \<open>Values of the host language\<close>

text \<open>
  The dashboard (\<^verbatim>\<open>src/src/TemperatureDashboard.jsx\<close>) works on rows that the CSV parser
  produced with dynamic typing, so a field may hold a number, a string, a boolean, a date
  object, \<^verbatim>\<open>null\<close> (an empty cell) or \<^verbatim>\<open>undefined\<close> (a missing column).

  Numbers are modelled as exact rationals extended by \<^verbatim>\<open>NaN\<close> and the two infinities.
  The rounding of IEEE doubles and the sign of zero are not modelled.
\<close>

datatype jsnum = NaN | NegInf | Fin rat | PosInf

datatype jsval =
    JUndefined
  | JNull
  | JBool bool
  | JNum jsnum
  | JStr string
  | JDate jsnum

datatype error = TypeError

text \<open>
  The built-ins whose result the language standard leaves to the implementation (locale
  and time-zone dependent formatting and parsing of dates), or defines on IEEE doubles
  (number to string, string to number), are parameters of the model: every function below
  that calls one of them takes the runtime as its first argument.
\<close>

record runtime =
  StringToNumber :: "string \<Rightarrow> jsnum"
  NumberToString :: "rat \<Rightarrow> string"
  DateToLocaleString :: "rat \<Rightarrow> string"
  DateToString :: "rat \<Rightarrow> string"
  DateParse :: "string \<Rightarrow> jsnum"

subsection \<open>Arithmetic on numbers\<close>

fun num_lt :: "jsnum \<Rightarrow> jsnum \<Rightarrow> bool" where
  "num_lt (Fin x) (Fin y) = (x < y)"
| "num_lt NegInf (Fin y) = True"
| "num_lt NegInf PosInf = True"
| "num_lt (Fin x) PosInf = True"
| "num_lt _ _ = False"


definition num_sign :: "jsnum \<Rightarrow> int" where
  "num_sign a = (case a of NaN \<Rightarrow> 0 | NegInf \<Rightarrow> -1 | PosInf \<Rightarrow> 1
     | Fin x \<Rightarrow> (if x < 0 then -1 else if x = 0 then 0 else 1))"

definition inf_of_sign :: "int \<Rightarrow> jsnum" where
  "inf_of_sign s = (if s = 0 then NaN else if s < 0 then NegInf else PosInf)"

fun num_mul :: "jsnum \<Rightarrow> jsnum \<Rightarrow> jsnum" where
  "num_mul (Fin x) (Fin y) = Fin (x * y)"
| "num_mul NaN _ = NaN"
| "num_mul _ NaN = NaN"
| "num_mul (Fin x) PosInf = inf_of_sign (num_sign (Fin x))"
| "num_mul (Fin x) NegInf = inf_of_sign (- num_sign (Fin x))"
| "num_mul PosInf b = inf_of_sign (num_sign b)"
| "num_mul NegInf b = inf_of_sign (- num_sign b)"


subsection \<open>Conversions and comparison\<close>

fun ToNumber :: "runtime \<Rightarrow> jsval \<Rightarrow> jsnum" where
  "ToNumber rt JUndefined = NaN"
| "ToNumber rt JNull = Fin 0"
| "ToNumber rt (JBool b) = Fin (if b then 1 else 0)"
| "ToNumber rt (JNum n) = n"
| "ToNumber rt (JStr s) = StringToNumber rt s"
| "ToNumber rt (JDate t) = t"

text \<open>Strings compare by code unit, the shorter one first when it is a prefix of the other.\<close>

fun str_lt :: "string \<Rightarrow> string \<Rightarrow> bool" where
  "str_lt [] [] = False"
| "str_lt [] (y # ys) = True"
| "str_lt (x # xs) [] = False"
| "str_lt (x # xs) (y # ys) =
     (if (of_char x :: nat) < of_char y then True
      else if (of_char y :: nat) < of_char x then False
      else str_lt xs ys)"

text \<open>
  The abstract relational comparison: two strings compare as strings; otherwise both
  operands are converted to numbers (a date object to its time value), and the result is
  undefined, here \<open>None\<close>, when one of them is \<^verbatim>\<open>NaN\<close>.
\<close>

fun IsLessThan :: "runtime \<Rightarrow> jsval \<Rightarrow> jsval \<Rightarrow> bool option" where
  "IsLessThan rt (JStr s) (JStr t) = Some (str_lt s t)"
| "IsLessThan rt a b =
     (let x = ToNumber rt a; y = ToNumber rt b
      in if x = NaN \<or> y = NaN then None else Some (num_lt x y))"

definition js_lt :: "runtime \<Rightarrow> jsval \<Rightarrow> jsval \<Rightarrow> bool" where
  "js_lt rt a b = (IsLessThan rt a b = Some True)"

definition js_gt :: "runtime \<Rightarrow> jsval \<Rightarrow> jsval \<Rightarrow> bool" where
  "js_gt rt a b = (IsLessThan rt b a = Some True)"

definition js_le :: "runtime \<Rightarrow> jsval \<Rightarrow> jsval \<Rightarrow> bool" where
  "js_le rt a b = (IsLessThan rt b a = Some False)"

definition js_ge :: "runtime \<Rightarrow> jsval \<Rightarrow> jsval \<Rightarrow> bool" where
  "js_ge rt a b = (IsLessThan rt a b = Some False)"

subsection \<open>Dates\<close>

text \<open>
  \<^verbatim>\<open>new Date(x)\<close> on a number keeps the time value \<open>TimeClip x\<close>: not a number outside
  the range of 8.64e15 milliseconds around the epoch, truncated towards zero inside.
\<close>

definition TimeClip :: "jsnum \<Rightarrow> jsnum" where
  "TimeClip t = (case t of
       Fin x \<Rightarrow> (if \<bar>x\<bar> > 8640000000000000 then NaN
                 else Fin (of_int (if 0 \<le> x then \<lfloor>x\<rfloor> else \<lceil>x\<rceil>)))
     | _ \<Rightarrow> NaN)"

text \<open>\<^verbatim>\<open>toLocaleString\<close> of a date whose time value is not a number is fixed by the standard.\<close>

definition Date_toLocaleString :: "runtime \<Rightarrow> jsnum \<Rightarrow> string" where
  "Date_toLocaleString rt t = (case t of
       Fin x \<Rightarrow> DateToLocaleString rt x
     | _ \<Rightarrow> ''Invalid Date'')"

section \<open>Records\<close>

datatype sev = high | medium | low

record raw_row =
  UNIX_TIME :: jsval
  LATITUDE :: jsval
  LONGITUDE :: jsval
  POSITION_YARDS :: jsval
  SCORE :: jsval
  RECORDING_ID :: jsval

record row = raw_row +
  date :: string
  severity :: sev

text \<open>
  The object literal of \<^verbatim>\<open>loadData\<close> (lines 165 to 174): the fields of the parsed row,
  then \<^verbatim>\<open>date\<close> and \<^verbatim>\<open>severity\<close>.
\<close>

definition row_time :: "runtime \<Rightarrow> jsval \<Rightarrow> jsnum" where
  "row_time rt u = TimeClip (num_mul (ToNumber rt u) (Fin 1000))"

definition severity_of :: "runtime \<Rightarrow> jsval \<Rightarrow> sev" where
  "severity_of rt score =
     (if js_ge rt score (JNum (Fin 70)) then high
      else if js_ge rt score (JNum (Fin 55)) then medium
      else low)"

definition normalize_row :: "runtime \<Rightarrow> raw_row \<Rightarrow> row" where
  "normalize_row rt r =
     \<lparr> UNIX_TIME = UNIX_TIME r, LATITUDE = LATITUDE r, LONGITUDE = LONGITUDE r,
       POSITION_YARDS = POSITION_YARDS r, SCORE = SCORE r, RECORDING_ID = RECORDING_ID r,
       date = Date_toLocaleString rt (row_time rt (UNIX_TIME r)),
       severity = severity_of rt (SCORE r) \<rparr>"

section \<open>Sorting\<close>

datatype sort_key =
  K_date | K_RECORDING_ID | K_POSITION_YARDS | K_LATITUDE | K_LONGITUDE | K_SCORE | K_severity

datatype dir = asc | desc

record sort_config =
  key :: "sort_key option"
  direction :: dir

text \<open>
  \<^verbatim>\<open>handleSort\<close> (lines 101 to 107) is the only writer of a key; the table headers call it
  with the seven literals above, and \<^verbatim>\<open>null\<close> is \<open>None\<close>.
\<close>

definition handleSort :: "sort_key \<Rightarrow> sort_config \<Rightarrow> sort_config" where
  "handleSort k cfg =
     \<lparr> key = Some k,
       direction = (if key cfg = Some k \<and> direction cfg = asc then desc else asc) \<rparr>"

definition severityOrder :: "sev \<Rightarrow> rat" where
  "severityOrder s = (case s of high \<Rightarrow> 3 | medium \<Rightarrow> 2 | low \<Rightarrow> 1)"

text \<open>
  The value the comparator of \<^verbatim>\<open>getSortedData\<close> compares (lines 114 to 126): the field
  named by the key, replaced for \<^verbatim>\<open>date\<close> by the time value of
  \<^verbatim>\<open>new Date(a.UNIX_TIME * 1000)\<close> and for \<^verbatim>\<open>severity\<close> by its rank.
\<close>

definition sort_value :: "runtime \<Rightarrow> sort_key \<Rightarrow> row \<Rightarrow> jsval" where
  "sort_value rt k a = (case k of
       K_date \<Rightarrow> JNum (row_time rt (UNIX_TIME a))
     | K_severity \<Rightarrow> JNum (Fin (severityOrder (severity a)))
     | K_RECORDING_ID \<Rightarrow> RECORDING_ID a
     | K_POSITION_YARDS \<Rightarrow> POSITION_YARDS a
     | K_LATITUDE \<Rightarrow> LATITUDE a
     | K_LONGITUDE \<Rightarrow> LONGITUDE a
     | K_SCORE \<Rightarrow> SCORE a)"

definition compare_rows :: "runtime \<Rightarrow> sort_key \<Rightarrow> dir \<Rightarrow> row \<Rightarrow> row \<Rightarrow> int" where
  "compare_rows rt k d a b =
     (let aValue = sort_value rt k a; bValue = sort_value rt k b
      in if js_lt rt aValue bValue then (if d = asc then -1 else 1)
         else if js_gt rt aValue bValue then (if d = asc then 1 else -1)
         else 0)"

text \<open>
  \<^verbatim>\<open>Array.prototype.sort\<close> with a comparator. The standard (since ECMAScript 2019)
  requires a stable sort and fixes the result whenever the comparator is consistent; the
  model is the stable insertion sort, which moves an element past those it compares
  greater than.
\<close>

fun sort_insert :: "('a \<Rightarrow> 'a \<Rightarrow> int) \<Rightarrow> 'a \<Rightarrow> 'a list \<Rightarrow> 'a list" where
  "sort_insert cmp x [] = [x]"
| "sort_insert cmp x (y # ys) =
     (if cmp x y \<le> 0 then x # y # ys else y # sort_insert cmp x ys)"

fun Array_sort :: "('a \<Rightarrow> 'a \<Rightarrow> int) \<Rightarrow> 'a list \<Rightarrow> 'a list" where
  "Array_sort cmp [] = []"
| "Array_sort cmp (x # xs) = sort_insert cmp x (Array_sort cmp xs)"

definition getSortedData :: "runtime \<Rightarrow> sort_config \<Rightarrow> row list \<Rightarrow> row list" where
  "getSortedData rt cfg dataToSort = (case key cfg of
       None \<Rightarrow> dataToSort
     | Some k \<Rightarrow> Array_sort (compare_rows rt k (direction cfg)) dataToSort)"

subsection \<open>Arrays in a store\<close>







section \<open>Component state\<close>

datatype latLngBounds = LatLngBounds "jsnum \<times> jsnum" "jsnum \<times> jsnum"

text \<open>
  The twelve \<^verbatim>\<open>useState\<close> cells of the component (lines 54 to 65). The bounds object is
  kept as the two corners handed to \<^verbatim>\<open>L.latLngBounds\<close>; the map library itself is outside
  the model, and so is what it does with a corner that is not a number.
\<close>

record state =
  data :: "row list"
  filteredData :: "row list"
  temperatureRange :: "jsval \<times> jsval"
  searchTerm :: string
  selectedSeverity :: string
  isDarkMode :: bool
  sortConfig :: sort_config
  isMapExpanded :: bool
  mapCenter :: "jsnum \<times> jsnum"
  mapBounds :: "latLngBounds option"
  dateFrom :: string
  dateTo :: string

definition initial_state :: state where
  "initial_state =
     \<lparr> data = [], filteredData = [],
       temperatureRange = (JNum (Fin 40), JNum (Fin 80)),
       searchTerm = [], selectedSeverity = ''all'', isDarkMode = False,
       sortConfig = \<lparr> key = None, direction = asc \<rparr>,
       isMapExpanded = False,
       mapCenter = (Fin (51505 / 1000), Fin (- 9 / 100)),
       mapBounds = None, dateFrom = [], dateTo = [] \<rparr>"

definition handleReset :: "state \<Rightarrow> state" where
  "handleReset st =
     st\<lparr> temperatureRange := (JNum (Fin 40), JNum (Fin 80)),
        searchTerm := [],
        selectedSeverity := ''all'',
        dateFrom := [],
        dateTo := [],
        sortConfig := \<lparr> key = None, direction = asc \<rparr> \<rparr>"


section \<open>Loading\<close>






section \<open>Filtering\<close>

subsection \<open>String methods\<close>

text \<open>
  Strings are lists of 8-bit characters; \<^verbatim>\<open>toLowerCase\<close> is modelled on the ASCII
  letters and leaves every other character as it is.
\<close>

definition lower_char :: "char \<Rightarrow> char" where
  "lower_char c = (let n = (of_char c :: nat) in if 65 \<le> n \<and> n \<le> 90 then char_of (n + 32) else c)"

definition toLowerCase :: "string \<Rightarrow> string" where
  "toLowerCase s = map lower_char s"

fun starts_with :: "string \<Rightarrow> string \<Rightarrow> bool" where
  "starts_with s [] = True"
| "starts_with [] (c # t) = False"
| "starts_with (d # s) (c # t) = (d = c \<and> starts_with s t)"

fun str_includes :: "string \<Rightarrow> string \<Rightarrow> bool" where
  "str_includes [] t = (t = [])"
| "str_includes (d # s) t = (starts_with (d # s) t \<or> str_includes s t)"

definition Number_toString :: "runtime \<Rightarrow> jsnum \<Rightarrow> string" where
  "Number_toString rt n = (case n of
       NaN \<Rightarrow> ''NaN''
     | PosInf \<Rightarrow> ''Infinity''
     | NegInf \<Rightarrow> ''-Infinity''
     | Fin x \<Rightarrow> NumberToString rt x)"

definition Date_toString :: "runtime \<Rightarrow> jsnum \<Rightarrow> string" where
  "Date_toString rt t = (case t of
       Fin x \<Rightarrow> DateToString rt x
     | _ \<Rightarrow> ''Invalid Date'')"

text \<open>
  The method call \<^verbatim>\<open>v.toString()\<close>: reading a property of \<^verbatim>\<open>null\<close> or
  \<^verbatim>\<open>undefined\<close> throws a \<^verbatim>\<open>TypeError\<close>.
\<close>

fun toString_method :: "runtime \<Rightarrow> jsval \<Rightarrow> error + string" where
  "toString_method rt JUndefined = Inl TypeError"
| "toString_method rt JNull = Inl TypeError"
| "toString_method rt (JBool b) = Inr (if b then ''true'' else ''false'')"
| "toString_method rt (JNum n) = Inr (Number_toString rt n)"
| "toString_method rt (JStr s) = Inr s"
| "toString_method rt (JDate t) = Inr (Date_toString rt t)"

text \<open>\<^verbatim>\<open>new Date(s).getTime()\<close> on a string\<close>

definition Date_string_time :: "runtime \<Rightarrow> string \<Rightarrow> jsnum" where
  "Date_string_time rt s = TimeClip (DateParse rt s)"

subsection \<open>The predicates\<close>

definition sev_name :: "sev \<Rightarrow> string" where
  "sev_name s = (case s of high \<Rightarrow> ''high'' | medium \<Rightarrow> ''medium'' | low \<Rightarrow> ''low'')"

definition in_temperature_range :: "runtime \<Rightarrow> jsval \<Rightarrow> jsval \<Rightarrow> row \<Rightarrow> bool" where
  "in_temperature_range rt minTemp maxTemp r =
     ((minTemp = JStr [] \<or> js_ge rt (SCORE r) minTemp) \<and>
      (maxTemp = JStr [] \<or> js_le rt (SCORE r) maxTemp))"

definition field_includes :: "runtime \<Rightarrow> jsval \<Rightarrow> string \<Rightarrow> error + bool" where
  "field_includes rt v searchLower = (case toString_method rt v of
       Inl e \<Rightarrow> Inl e
     | Inr s \<Rightarrow> Inr (str_includes s searchLower))"

text \<open>
  A chain of \<^verbatim>\<open>||\<close>: the operands are evaluated from the left, the first true one
  decides, and an operand that throws is only reached when all before it were false.
\<close>

fun or_chain :: "(error + bool) list \<Rightarrow> error + bool" where
  "or_chain [] = Inr False"
| "or_chain (Inl e # rest) = Inl e"
| "or_chain (Inr b # rest) = (if b then Inr True else or_chain rest)"

definition search_matches :: "runtime \<Rightarrow> string \<Rightarrow> row \<Rightarrow> error + bool" where
  "search_matches rt searchLower r =
     or_chain
       [ Inr (str_includes (toLowerCase (date r)) searchLower),
         field_includes rt (SCORE r) searchLower,
         field_includes rt (POSITION_YARDS r) searchLower,
         field_includes rt (LATITUDE r) searchLower,
         field_includes rt (LONGITUDE r) searchLower,
         field_includes rt (RECORDING_ID r) searchLower ]"

text \<open>\<^verbatim>\<open>Array.prototype.filter\<close> with a callback that may throw: the first throw ends it.\<close>

fun filter_e :: "('a \<Rightarrow> error + bool) \<Rightarrow> 'a list \<Rightarrow> error + 'a list" where
  "filter_e p [] = Inr []"
| "filter_e p (x # xs) = (case p x of
       Inl e \<Rightarrow> Inl e
     | Inr b \<Rightarrow> (case filter_e p xs of
           Inl e \<Rightarrow> Inl e
         | Inr ys \<Rightarrow> Inr (if b then x # ys else ys)))"

subsection \<open>The filter effect\<close>

text \<open>
  The effect of lines 210 to 260 computes the filtered rows from the state; an empty string
  is falsy, so an empty bound or search term skips its step. \<open>filtered_rows\<close> is the value
  handed to \<^verbatim>\<open>setFilteredData\<close>, or the error thrown on the way.
\<close>

definition filtered_rows :: "runtime \<Rightarrow> state \<Rightarrow> error + row list" where
  "filtered_rows rt st =
     (let filtered0 = data st;
          filtered1 =
            (if dateFrom st \<noteq> [] then
               (let fromTime = Date_string_time rt (dateFrom st)
                in filter (\<lambda>r. js_ge rt (JNum (Date_string_time rt (date r))) (JNum fromTime)) filtered0)
             else filtered0);
          filtered2 =
            (if dateTo st \<noteq> [] then
               (let toTime = Date_string_time rt (dateTo st)
                in filter (\<lambda>r. js_le rt (JNum (Date_string_time rt (date r))) (JNum toTime)) filtered1)
             else filtered1);
          filtered3 =
            (if selectedSeverity st \<noteq> ''all'' then
               filter (\<lambda>r. sev_name (severity r) = selectedSeverity st) filtered2
             else filtered2);
          minTemp = fst (temperatureRange st);
          maxTemp = snd (temperatureRange st);
          filtered4 = filter (in_temperature_range rt minTemp maxTemp) filtered3
      in if searchTerm st \<noteq> [] then
           (let searchLower = toLowerCase (searchTerm st)
            in filter_e (search_matches rt searchLower) filtered4)
         else Inr filtered4)"

definition filter_effect :: "runtime \<Rightarrow> state \<Rightarrow> error + state" where
  "filter_effect rt st = (case filtered_rows rt st of
       Inl e \<Rightarrow> Inl e
     | Inr filtered \<Rightarrow> Inr (st\<lparr> filteredData := filtered \<rparr>))"

text \<open>The table shows \<^verbatim>\<open>getSortedData(filteredData)\<close> (lines 688 and 701).\<close>

definition displayed_rows :: "runtime \<Rightarrow> state \<Rightarrow> row list" where
  "displayed_rows rt st = getSortedData rt (sortConfig st) (filteredData st)"

section \<open>A reference runtime\<close>

text \<open>
  One concrete runtime, used where a statement is evaluated on concrete rows: the
  \<^verbatim>\<open>en-US\<close> locale in the UTC time zone. Dates print as \<^verbatim>\<open>M/D/YYYY, h:mm:ss AM\<close> and are
  read back from that form and from the form of a \<^verbatim>\<open>datetime-local\<close> input; numbers print
  in plain decimal notation and are read from decimal literals (hexadecimal, octal and
  binary literals are not recognised). The general theorems hold for every runtime.
\<close>

definition digit_char :: "nat \<Rightarrow> char" where
  "digit_char n = char_of (48 + n)"

fun show_nat :: "nat \<Rightarrow> string" where
  "show_nat n = (if n < 10 then [digit_char n] else show_nat (n div 10) @ [digit_char (n mod 10)])"

declare show_nat.simps [simp del]

definition pad2 :: "nat \<Rightarrow> string" where
  "pad2 n = (if n < 10 then CHR ''0'' # show_nat n else show_nat n)"

text \<open>Days since the epoch to and from a calendar date (proleptic Gregorian calendar).\<close>

definition civil_from_days :: "int \<Rightarrow> int \<times> int \<times> int" where
  "civil_from_days z0 =
     (let z = z0 + 719468;
          era = z div 146097;
          doe = z - era * 146097;
          yoe = (doe - doe div 1460 + doe div 36524 - doe div 146096) div 365;
          y = yoe + era * 400;
          doy = doe - (365 * yoe + yoe div 4 - yoe div 100);
          mp = (5 * doy + 2) div 153;
          d = doy - (153 * mp + 2) div 5 + 1;
          m = (if mp < 10 then mp + 3 else mp - 9)
      in (if m \<le> 2 then y + 1 else y, m, d))"

definition days_from_civil :: "int \<Rightarrow> int \<Rightarrow> int \<Rightarrow> int" where
  "days_from_civil y0 m d =
     (let y = (if m \<le> 2 then y0 - 1 else y0);
          era = y div 400;
          yoe = y - era * 400;
          doy = (153 * (if m > 2 then m - 3 else m + 9) + 2) div 5 + d - 1;
          doe = yoe * 365 + yoe div 4 - yoe div 100 + doy
      in era * 146097 + doe - 719468)"

definition ref_DateToLocaleString :: "rat \<Rightarrow> string" where
  "ref_DateToLocaleString t =
     (let secs = \<lfloor>t / 1000\<rfloor>;
          sod = secs mod 86400;
          (y, m, d) = civil_from_days (secs div 86400);
          h = sod div 3600;
          h12 = (if h mod 12 = 0 then 12 else h mod 12)
      in show_nat (nat m) @ ''/'' @ show_nat (nat d) @ ''/'' @ show_nat (nat y) @ '', ''
         @ show_nat (nat h12) @ '':'' @ pad2 (nat (sod mod 3600 div 60)) @ '':''
         @ pad2 (nat (sod mod 60)) @ (if h < 12 then '' AM'' else '' PM''))"

definition ref_DateToString :: "rat \<Rightarrow> string" where
  "ref_DateToString t =
     (let secs = \<lfloor>t / 1000\<rfloor>;
          sod = secs mod 86400;
          days = secs div 86400;
          (y, m, d) = civil_from_days days
      in [''Sun'', ''Mon'', ''Tue'', ''Wed'', ''Thu'', ''Fri'', ''Sat''] ! nat ((days + 4) mod 7) @ '' ''
         @ [''Jan'', ''Feb'', ''Mar'', ''Apr'', ''May'', ''Jun'',
            ''Jul'', ''Aug'', ''Sep'', ''Oct'', ''Nov'', ''Dec''] ! nat (m - 1) @ '' ''
         @ pad2 (nat d) @ '' '' @ show_nat (nat y) @ '' ''
         @ pad2 (nat (sod div 3600)) @ '':'' @ pad2 (nat (sod mod 3600 div 60)) @ '':''
         @ pad2 (nat (sod mod 60)) @ '' GMT+0000 (Coordinated Universal Time)'')"

definition is_digit :: "char \<Rightarrow> bool" where
  "is_digit c = (48 \<le> (of_char c :: nat) \<and> (of_char c :: nat) \<le> 57)"

fun read_digits :: "nat \<Rightarrow> string \<Rightarrow> nat \<times> string" where
  "read_digits acc [] = (acc, [])"
| "read_digits acc (c # s) =
     (if is_digit c then read_digits (10 * acc + (of_char c - 48)) s else (acc, c # s))"

definition read_nat :: "string \<Rightarrow> (nat \<times> string) option" where
  "read_nat s = (case s of
       [] \<Rightarrow> None
     | c # _ \<Rightarrow> (if is_digit c then Some (read_digits 0 s) else None))"

fun expect :: "string \<Rightarrow> string \<Rightarrow> string option" where
  "expect [] s = Some s"
| "expect (c # p) [] = None"
| "expect (c # p) (d # s) = (if c = d then expect p s else None)"

definition civil_time :: "nat \<Rightarrow> nat \<Rightarrow> nat \<Rightarrow> nat \<Rightarrow> nat \<Rightarrow> nat \<Rightarrow> jsnum" where
  "civil_time y m d h mi sec =
     (if 1 \<le> m \<and> m \<le> 12 \<and> 1 \<le> d \<and> d \<le> 31 \<and> h < 24 \<and> mi < 60 \<and> sec < 60 then
        Fin (of_int (((days_from_civil (int y) (int m) (int d) * 24 + int h) * 60 + int mi) * 60
                       + int sec) * 1000)
      else NaN)"

definition parse_locale_form :: "string \<Rightarrow> jsnum option" where
  "parse_locale_form s0 = do {
     (m, s1) \<leftarrow> read_nat s0;
     s2 \<leftarrow> expect ''/'' s1;
     (d, s3) \<leftarrow> read_nat s2;
     s4 \<leftarrow> expect ''/'' s3;
     (y, s5) \<leftarrow> read_nat s4;
     s6 \<leftarrow> expect '', '' s5;
     (h, s7) \<leftarrow> read_nat s6;
     s8 \<leftarrow> expect '':'' s7;
     (mi, s9) \<leftarrow> read_nat s8;
     s10 \<leftarrow> expect '':'' s9;
     (sec, s11) \<leftarrow> read_nat s10;
     if 1 \<le> h \<and> h \<le> 12 \<and> s11 = '' AM'' then Some (civil_time y m d (h mod 12) mi sec)
     else if 1 \<le> h \<and> h \<le> 12 \<and> s11 = '' PM'' then Some (civil_time y m d (h mod 12 + 12) mi sec)
     else None
   }"

definition parse_input_form :: "string \<Rightarrow> jsnum option" where
  "parse_input_form s0 = do {
     (y, s1) \<leftarrow> read_nat s0;
     s2 \<leftarrow> expect ''-'' s1;
     (m, s3) \<leftarrow> read_nat s2;
     s4 \<leftarrow> expect ''-'' s3;
     (d, s5) \<leftarrow> read_nat s4;
     s6 \<leftarrow> expect ''T'' s5;
     (h, s7) \<leftarrow> read_nat s6;
     s8 \<leftarrow> expect '':'' s7;
     (mi, s9) \<leftarrow> read_nat s8;
     if s9 = [] then Some (civil_time y m d h mi 0)
     else do {
       s10 \<leftarrow> expect '':'' s9;
       (sec, s11) \<leftarrow> read_nat s10;
       if s11 = [] then Some (civil_time y m d h mi sec) else None
     }
   }"

definition ref_DateParse :: "string \<Rightarrow> jsnum" where
  "ref_DateParse s = (case parse_locale_form s of
       Some t \<Rightarrow> t
     | None \<Rightarrow> (case parse_input_form s of Some t \<Rightarrow> t | None \<Rightarrow> NaN))"

fun frac_digits :: "nat \<Rightarrow> rat \<Rightarrow> string" where
  "frac_digits 0 f = []"
| "frac_digits (Suc k) f =
     (if f = 0 then []
      else digit_char (nat \<lfloor>f * 10\<rfloor>) # frac_digits k (f * 10 - of_int \<lfloor>f * 10\<rfloor>))"

definition ref_NumberToString :: "rat \<Rightarrow> string" where
  "ref_NumberToString x =
     (let a = \<bar>x\<bar>;
          whole = \<lfloor>a\<rfloor>;
          f = a - of_int whole
      in (if x < 0 then ''-'' else []) @ show_nat (nat whole)
         @ (if f = 0 then [] else ''.'' @ frac_digits 20 f))"

definition is_space :: "char \<Rightarrow> bool" where
  "is_space c = ((of_char c :: nat) \<in> {9, 10, 11, 12, 13, 32})"

definition trim :: "string \<Rightarrow> string" where
  "trim s = rev (dropWhile is_space (rev (dropWhile is_space s)))"

definition read_fraction :: "string \<Rightarrow> (rat \<times> string) option" where
  "read_fraction s = (case read_nat s of
       None \<Rightarrow> None
     | Some (n, s1) \<Rightarrow> Some (of_nat n / 10 ^ (length s - length s1), s1))"

text \<open>An unsigned decimal literal: digits, an optional fraction, an optional exponent.\<close>

definition read_mantissa :: "string \<Rightarrow> (rat \<times> string) option" where
  "read_mantissa s = (case read_nat s of
       Some (n, s1) \<Rightarrow> (case expect ''.'' s1 of
           None \<Rightarrow> Some (of_nat n, s1)
         | Some s2 \<Rightarrow> (case read_fraction s2 of
               None \<Rightarrow> Some (of_nat n, s2)
             | Some (f, s3) \<Rightarrow> Some (of_nat n + f, s3)))
     | None \<Rightarrow> (case expect ''.'' s of
           None \<Rightarrow> None
         | Some s2 \<Rightarrow> read_fraction s2))"

definition read_exponent :: "string \<Rightarrow> int option" where
  "read_exponent s = (case s of
       [] \<Rightarrow> Some 0
     | c # s1 \<Rightarrow> (if c = CHR ''e'' \<or> c = CHR ''E'' then
           (let (neg, s2) = (case s1 of
                   d # rest \<Rightarrow> (if d = CHR ''-'' then (True, rest)
                                else if d = CHR ''+'' then (False, rest) else (False, s1))
                 | [] \<Rightarrow> (False, s1))
            in case read_nat s2 of
                 Some (n, []) \<Rightarrow> Some (if neg then - int n else int n)
               | _ \<Rightarrow> None)
         else None))"

definition read_unsigned :: "string \<Rightarrow> jsnum" where
  "read_unsigned s =
     (if s = ''Infinity'' then PosInf
      else case read_mantissa s of
             None \<Rightarrow> NaN
           | Some (m, s1) \<Rightarrow> (case read_exponent s1 of
                 None \<Rightarrow> NaN
               | Some e \<Rightarrow> Fin (if 0 \<le> e then m * 10 ^ nat e else m / 10 ^ nat (- e))))"

definition ref_StringToNumber :: "string \<Rightarrow> jsnum" where
  "ref_StringToNumber s0 = (case trim s0 of
       [] \<Rightarrow> Fin 0
     | c # s \<Rightarrow> (if c = CHR ''-'' then num_mul (Fin (- 1)) (read_unsigned s)
                 else if c = CHR ''+'' then read_unsigned s
                 else read_unsigned (c # s)))"

definition ref_runtime :: runtime where
  "ref_runtime =
     \<lparr> StringToNumber = ref_StringToNumber,
       NumberToString = ref_NumberToString,
       DateToLocaleString = ref_DateToLocaleString,
       DateToString = ref_DateToString,
       DateParse = ref_DateParse \<rparr>"

subsection \<open>Sample rows\<close>

definition mk_raw :: "rat \<Rightarrow> rat \<Rightarrow> rat \<Rightarrow> jsval \<Rightarrow> jsval \<Rightarrow> raw_row" where
  "mk_raw t lat lng score rid =
     \<lparr> UNIX_TIME = JNum (Fin t), LATITUDE = JNum (Fin lat), LONGITUDE = JNum (Fin lng),
       POSITION_YARDS = JNum (Fin 1200), SCORE = score, RECORDING_ID = rid \<rparr>"

definition sample_raw :: "raw_row list" where
  "sample_raw =
     [ mk_raw 1610701200 10 (-5) (JNum (Fin 30)) (JStr ''REC-A''),
       mk_raw 1610704800 20 0 (JNum (Fin 60)) (JStr ''REC-B''),
       mk_raw 1610708400 30 5 (JNum (Fin 90)) (JStr ''REC-C'') ]"

definition sample_data :: "row list" where
  "sample_data = map (normalize_row ref_runtime) sample_raw"



text \<open>Two rows less than a second apart, the later one first.\<close>

definition subsecond_rows :: "row list" where
  "subsecond_rows = map (normalize_row ref_runtime)
     [ mk_raw (16107012007 / 10) 10 (-5) (JNum (Fin 60)) (JStr ''REC-A''),
       mk_raw (16107012002 / 10) 20 0 (JNum (Fin 61)) (JStr ''REC-B'') ]"

text \<open>A row whose \<^verbatim>\<open>RECORDING_ID\<close> cell was empty, and a row whose score is not numeric.\<close>

definition null_id_rows :: "row list" where
  "null_id_rows = map (normalize_row ref_runtime)
     [ mk_raw 1610704800 20 0 (JNum (Fin 60)) JNull ]"

definition nan_score_row :: row where
  "nan_score_row = normalize_row ref_runtime (mk_raw 1610704800 20 0 (JStr ''n/a'') (JStr ''REC-D''))"

section \<open>The chronological sort as the specification words it\<close>

text \<open>
  The specification describes the sort on the \<^verbatim>\<open>date\<close> key as a comparison of the
  instants obtained by parsing the stored display string back, which is what the date
  filter does with \<^verbatim>\<open>new Date(row.date).getTime()\<close>. These definitions follow that
  wording, for comparison with \<open>getSortedData\<close>.
\<close>

definition spec_display_time :: "runtime \<Rightarrow> row \<Rightarrow> jsnum" where
  "spec_display_time rt r = Date_string_time rt (date r)"

definition spec_compare_by_display :: "runtime \<Rightarrow> dir \<Rightarrow> row \<Rightarrow> row \<Rightarrow> int" where
  "spec_compare_by_display rt d a b =
     (let aValue = JNum (spec_display_time rt a); bValue = JNum (spec_display_time rt b)
      in if js_lt rt aValue bValue then (if d = asc then -1 else 1)
         else if js_gt rt aValue bValue then (if d = asc then 1 else -1)
         else 0)"

definition spec_sort_by_display :: "runtime \<Rightarrow> dir \<Rightarrow> row list \<Rightarrow> row list" where
  "spec_sort_by_display rt d rows = Array_sort (spec_compare_by_display rt d) rows"

section \<open>Notions used in the statements about the filter\<close>

text \<open>The five fields that the search turns into strings hold a value with a \<^verbatim>\<open>toString\<close> method.\<close>

definition has_toString :: "jsval \<Rightarrow> bool" where
  "has_toString v = (v \<noteq> JNull \<and> v \<noteq> JUndefined)"

definition fields_present :: "row \<Rightarrow> bool" where
  "fields_present r =
     (has_toString (SCORE r) \<and> has_toString (POSITION_YARDS r) \<and> has_toString (LATITUDE r)
      \<and> has_toString (LONGITUDE r) \<and> has_toString (RECORDING_ID r))"

text \<open>
  The four steps of the filter effect before the search, as one predicate on a row: each
  step is skipped when its state cell is unset, except the temperature step, which has no
  guard of its own.
\<close>

definition passes_plain :: "runtime \<Rightarrow> state \<Rightarrow> row \<Rightarrow> bool" where
  "passes_plain rt st r =
     ((dateFrom st = [] \<or>
         js_ge rt (JNum (Date_string_time rt (date r))) (JNum (Date_string_time rt (dateFrom st))))
      \<and> (dateTo st = [] \<or>
         js_le rt (JNum (Date_string_time rt (date r))) (JNum (Date_string_time rt (dateTo st))))
      \<and> (selectedSeverity st = ''all'' \<or> sev_name (severity r) = selectedSeverity st)
      \<and> in_temperature_range rt (fst (temperatureRange st)) (snd (temperatureRange st)) r)"

section \<open>The search as the specification words it\<close>

text \<open>
  The specification asks for a case-insensitive substring match of the search term against
  the string representation of each of the six fields. These definitions follow that
  wording, for comparison with \<open>search_matches\<close>; a field without a string representation
  does not match.
\<close>

definition spec_field_matches :: "runtime \<Rightarrow> string \<Rightarrow> jsval \<Rightarrow> bool" where
  "spec_field_matches rt term v = (case toString_method rt v of
       Inl e \<Rightarrow> False
     | Inr s \<Rightarrow> str_includes (toLowerCase s) (toLowerCase term))"

definition spec_search_matches :: "runtime \<Rightarrow> string \<Rightarrow> row \<Rightarrow> bool" where
  "spec_search_matches rt term r =
     (str_includes (toLowerCase (date r)) (toLowerCase term)
      \<or> spec_field_matches rt term (SCORE r)
      \<or> spec_field_matches rt term (POSITION_YARDS r)
      \<or> spec_field_matches rt term (LATITUDE r)
      \<or> spec_field_matches rt term (LONGITUDE r)
      \<or> spec_field_matches rt term (RECORDING_ID r))"

section \<open>Severity classification\<close>

lemma js_ge_Fin: "js_ge rt (JNum (Fin x)) (JNum (Fin y)) \<longleftrightarrow> y \<le> x"
  by (auto simp: js_ge_def)

lemma js_le_Fin: "js_le rt (JNum (Fin x)) (JNum (Fin y)) \<longleftrightarrow> x \<le> y"
  by (auto simp: js_le_def)

lemma js_ge_NaN: "ToNumber rt v = NaN \<Longrightarrow> \<not> js_ge rt v (JNum n)"
  by (cases v) (simp_all add: js_ge_def)

lemma severity_normalize_row: "severity (normalize_row rt r) = severity_of rt (SCORE r)"
  by (simp add: normalize_row_def)

text \<open>
  C1. Normalization makes the severity a total function of \<^verbatim>\<open>SCORE\<close>: \<open>high\<close> exactly when
  \<^verbatim>\<open>SCORE >= 70\<close> holds, \<open>medium\<close> exactly when \<^verbatim>\<open>SCORE >= 55\<close> holds and \<^verbatim>\<open>SCORE >= 70\<close>
  does not, \<open>low\<close> otherwise. On a number \<open>x\<close> these are \<open>70 \<le> x\<close>, \<open>55 \<le> x < 70\<close> and
  \<open>x < 55\<close>; a score that is missing or does not convert to a number gives \<open>low\<close>.
\<close>

theorem severity_total_by_threshold:
  "(severity (normalize_row rt r) = high \<longleftrightarrow> js_ge rt (SCORE r) (JNum (Fin 70)))
   \<and> (severity (normalize_row rt r) = medium \<longleftrightarrow>
        js_ge rt (SCORE r) (JNum (Fin 55)) \<and> \<not> js_ge rt (SCORE r) (JNum (Fin 70)))
   \<and> (severity (normalize_row rt r) = low \<longleftrightarrow> \<not> js_ge rt (SCORE r) (JNum (Fin 55)))
   \<and> (\<forall>x. SCORE r = JNum (Fin x) \<longrightarrow>
         (severity (normalize_row rt r) = high \<longleftrightarrow> 70 \<le> x)
       \<and> (severity (normalize_row rt r) = medium \<longleftrightarrow> 55 \<le> x \<and> x < 70)
       \<and> (severity (normalize_row rt r) = low \<longleftrightarrow> x < 55))
   \<and> (ToNumber rt (SCORE r) = NaN \<longrightarrow> severity (normalize_row rt r) = low)"
proof -
  have a: "js_ge rt (SCORE r) (JNum (Fin 70)) \<Longrightarrow> js_ge rt (SCORE r) (JNum (Fin 55))"
    by (cases "SCORE r"; cases "ToNumber rt (SCORE r)") (auto simp: js_ge_def)
  show ?thesis
    using a by (auto simp: severity_normalize_row severity_of_def js_ge_Fin dest: js_ge_NaN)
qed

theorem severity_total_by_threshold_witness:
  "severity (normalize_row ref_runtime (mk_raw 1610701200 51.5 (-0.09) (JNum (Fin 70)) (JStr ''R1''))) = high
   \<and> severity (normalize_row ref_runtime (mk_raw 1610701200 51.5 (-0.09) (JNum (Fin 69.999)) (JStr ''R1''))) = medium
   \<and> severity (normalize_row ref_runtime (mk_raw 1610701200 51.5 (-0.09) (JNum (Fin 55)) (JStr ''R1''))) = medium
   \<and> severity (normalize_row ref_runtime (mk_raw 1610701200 51.5 (-0.09) (JNum (Fin 54.999)) (JStr ''R1''))) = low
   \<and> severity (normalize_row ref_runtime (mk_raw 1610701200 51.5 (-0.09) JUndefined (JStr ''R1''))) = low
   \<and> severity (normalize_row ref_runtime (mk_raw 1610701200 51.5 (-0.09) (JStr ''n/a'') (JStr ''R1''))) = low"
proof -
  have s: "ToNumber ref_runtime (JStr ''n/a'') = NaN"
    by code_simp
  show ?thesis
    using severity_total_by_threshold [of ref_runtime "mk_raw 1610701200 51.5 (-0.09) (JNum (Fin 70)) (JStr ''R1'')"]
          severity_total_by_threshold [of ref_runtime "mk_raw 1610701200 51.5 (-0.09) (JNum (Fin 69.999)) (JStr ''R1'')"]
          severity_total_by_threshold [of ref_runtime "mk_raw 1610701200 51.5 (-0.09) (JNum (Fin 55)) (JStr ''R1'')"]
          severity_total_by_threshold [of ref_runtime "mk_raw 1610701200 51.5 (-0.09) (JNum (Fin 54.999)) (JStr ''R1'')"]
          severity_total_by_threshold [of ref_runtime "mk_raw 1610701200 51.5 (-0.09) JUndefined (JStr ''R1'')"]
          severity_total_by_threshold [of ref_runtime "mk_raw 1610701200 51.5 (-0.09) (JStr ''n/a'') (JStr ''R1'')"]
          s
    by (simp add: mk_raw_def js_ge_Fin)
qed

section \<open>Reset and the default filter state\<close>

text \<open>
  C10. \<^verbatim>\<open>handleReset\<close> writes the five filter cells and the sort configuration only: the
  base rows, the dark-mode flag, the map-expansion flag, the map centre and the map bounds
  are what they were (and so is the filtered array, until the filter effect runs again).
\<close>

theorem handleReset_frame:
  "data (handleReset st) = data st
   \<and> isDarkMode (handleReset st) = isDarkMode st
   \<and> isMapExpanded (handleReset st) = isMapExpanded st
   \<and> mapCenter (handleReset st) = mapCenter st
   \<and> mapBounds (handleReset st) = mapBounds st
   \<and> filteredData (handleReset st) = filteredData st"
  by (simp add: handleReset_def)

lemma filtered_rows_default:
  assumes "dateFrom st = []" "dateTo st = []" "selectedSeverity st = ''all''" "searchTerm st = []"
  shows "filtered_rows rt st =
     Inr (filter (in_temperature_range rt (fst (temperatureRange st)) (snd (temperatureRange st))) (data st))"
  using assms by (simp add: filtered_rows_def)

lemma in_default_range:
  "in_temperature_range rt (JNum (Fin 40)) (JNum (Fin 80))
     = (\<lambda>r. js_ge rt (SCORE r) (JNum (Fin 40)) \<and> js_le rt (SCORE r) (JNum (Fin 80)))"
  by (rule ext) (simp add: in_temperature_range_def)

text \<open>
  C8. After \<^verbatim>\<open>handleReset\<close> the temperature range is [40, 80], the severity is
  \<^verbatim>\<open>'all'\<close>, the search term and both date bounds are empty and the sort key is
  \<^verbatim>\<open>null\<close>; the filter effect then succeeds, and the rows displayed are the base rows
  filtered with the default filter state, in their order, unsorted.
\<close>

theorem handleReset_defaults:
  "temperatureRange (handleReset st) = (JNum (Fin 40), JNum (Fin 80))
   \<and> selectedSeverity (handleReset st) = ''all''
   \<and> searchTerm (handleReset st) = []
   \<and> dateFrom (handleReset st) = []
   \<and> dateTo (handleReset st) = []
   \<and> key (sortConfig (handleReset st)) = None
   \<and> filtered_rows rt (handleReset st) = filtered_rows rt (initial_state\<lparr> data := data st \<rparr>)
   \<and> map_sum id (displayed_rows rt) (filter_effect rt (handleReset st))
       = filtered_rows rt (initial_state\<lparr> data := data st \<rparr>)
   \<and> filtered_rows rt (initial_state\<lparr> data := data st \<rparr>)
       = Inr (filter (in_temperature_range rt (JNum (Fin 40)) (JNum (Fin 80))) (data st))"
proof -
  have a: "filtered_rows rt (handleReset st)
       = Inr (filter (in_temperature_range rt (JNum (Fin 40)) (JNum (Fin 80))) (data st))"
    by (simp add: filtered_rows_default handleReset_def)
  have b: "filtered_rows rt (initial_state\<lparr> data := data st \<rparr>)
       = Inr (filter (in_temperature_range rt (JNum (Fin 40)) (JNum (Fin 80))) (data st))"
    by (simp add: filtered_rows_default initial_state_def)
  have c: "map_sum id (displayed_rows rt) (filter_effect rt (handleReset st))
       = Inr (filter (in_temperature_range rt (JNum (Fin 40)) (JNum (Fin 80))) (data st))"
    unfolding filter_effect_def a
    by (simp add: displayed_rows_def getSortedData_def handleReset_def)
  show ?thesis
    using a b c by (simp add: handleReset_def)
qed

text \<open>
  C4. With both date bounds and the search term empty, the severity \<^verbatim>\<open>'all'\<close> and both
  temperature bounds the empty string, the filter effect stores the base rows themselves:
  the same rows in the same order.
\<close>

theorem filter_identity_when_open:
  assumes "dateFrom st = []" and "dateTo st = []" and "searchTerm st = []"
    and "selectedSeverity st = ''all''" and "temperatureRange st = (JStr [], JStr [])"
  shows "filtered_rows rt st = Inr (data st)
         \<and> filter_effect rt st = Inr (st\<lparr> filteredData := data st \<rparr>)"
  using assms by (simp add: filter_effect_def filtered_rows_default in_temperature_range_def)

theorem filter_identity_when_open_witness:
  "filtered_rows ref_runtime (initial_state\<lparr> data := sample_data, temperatureRange := (JStr [], JStr []) \<rparr>)
     = Inr sample_data
   \<and> length sample_data = 3"
  using filter_identity_when_open
          [of "initial_state\<lparr> data := sample_data, temperatureRange := (JStr [], JStr []) \<rparr>" ref_runtime]
  by (simp add: initial_state_def sample_data_def sample_raw_def)

lemma filter_e_Inr: "filter_e p xs = Inr ys \<Longrightarrow> ys = filter (\<lambda>x. p x = Inr True) xs"
  by (induction xs arbitrary: ys) (auto split: sum.splits if_splits)

lemma filtered_rows_in_range:
  assumes "filtered_rows rt st = Inr rows" and "r \<in> set rows"
  shows "in_temperature_range rt (fst (temperatureRange st)) (snd (temperatureRange st)) r"
proof (cases "searchTerm st = []")
  case True
  with assms show ?thesis by (auto simp: filtered_rows_def Let_def)
next
  case False
  with assms show ?thesis
    by (auto simp: filtered_rows_def Let_def dest!: filter_e_Inr)
qed

text \<open>
  C9. The temperature step has no guard, so every row that the effect keeps lies in the
  current range, and the range of the initial state and of the state after a reset is the
  concrete [40, 80]: with nothing else set, the filtered rows are the base rows with
  \<^verbatim>\<open>SCORE >= 40\<close> and \<^verbatim>\<open>SCORE <= 80\<close>, so a row whose score is a number below 40 or above
  80 is not among them.
\<close>

theorem default_range_excludes:
  "temperatureRange initial_state = (JNum (Fin 40), JNum (Fin 80))
   \<and> filtered_rows rt (initial_state\<lparr> data := base \<rparr>)
     = Inr (filter (\<lambda>r. js_ge rt (SCORE r) (JNum (Fin 40)) \<and> js_le rt (SCORE r) (JNum (Fin 80))) base)
   \<and> filtered_rows rt (handleReset st)
     = Inr (filter (\<lambda>r. js_ge rt (SCORE r) (JNum (Fin 40)) \<and> js_le rt (SCORE r) (JNum (Fin 80))) (data st))
   \<and> (\<forall>r x rows. filtered_rows rt (initial_state\<lparr> data := base \<rparr>) = Inr rows
         \<and> SCORE r = JNum (Fin x) \<and> (x < 40 \<or> 80 < x) \<longrightarrow> r \<notin> set rows)
   \<and> (\<forall>st' rows r. filtered_rows rt st' = Inr rows \<and> r \<in> set rows \<longrightarrow>
         in_temperature_range rt (fst (temperatureRange st')) (snd (temperatureRange st')) r)"
proof -
  have a: "filtered_rows rt (initial_state\<lparr> data := base \<rparr>)
     = Inr (filter (\<lambda>r. js_ge rt (SCORE r) (JNum (Fin 40)) \<and> js_le rt (SCORE r) (JNum (Fin 80))) base)"
    by (simp add: filtered_rows_default initial_state_def in_default_range)
  have b: "filtered_rows rt (handleReset st)
     = Inr (filter (\<lambda>r. js_ge rt (SCORE r) (JNum (Fin 40)) \<and> js_le rt (SCORE r) (JNum (Fin 80))) (data st))"
    by (simp add: filtered_rows_default handleReset_def in_default_range)
  have c: "\<forall>r x rows. filtered_rows rt (initial_state\<lparr> data := base \<rparr>) = Inr rows
         \<and> SCORE r = JNum (Fin x) \<and> (x < 40 \<or> 80 < x) \<longrightarrow> r \<notin> set rows"
    unfolding a by (auto simp: js_ge_Fin js_le_Fin)
  have d: "\<forall>st' rows r. filtered_rows rt st' = Inr rows \<and> r \<in> set rows \<longrightarrow>
         in_temperature_range rt (fst (temperatureRange st')) (snd (temperatureRange st')) r"
    using filtered_rows_in_range by blast
  have i: "temperatureRange initial_state = (JNum (Fin 40), JNum (Fin 80))"
    by (simp add: initial_state_def)
  from i a b c d show ?thesis by blast
qed

lemma sample_filtered:
  "filtered_rows ref_runtime (initial_state\<lparr> data := sample_data \<rparr>) = Inr [sample_data ! 1]"
  by (simp add: filtered_rows_default initial_state_def in_default_range sample_data_def
      sample_raw_def normalize_row_def mk_raw_def js_ge_Fin js_le_Fin)

theorem default_range_excludes_witness:
  "filtered_rows ref_runtime (initial_state\<lparr> data := sample_data \<rparr>) = Inr [sample_data ! 1]
   \<and> SCORE (sample_data ! 0) = JNum (Fin 30) \<and> sample_data ! 0 \<notin> set [sample_data ! 1]
   \<and> SCORE (sample_data ! 2) = JNum (Fin 90) \<and> sample_data ! 2 \<notin> set [sample_data ! 1]
   \<and> in_temperature_range ref_runtime (JNum (Fin 40)) (JNum (Fin 80)) (sample_data ! 1)"
proof -
  have s0: "SCORE (sample_data ! 0) = JNum (Fin 30)"
    by (simp add: sample_data_def sample_raw_def normalize_row_def mk_raw_def)
  have s2: "SCORE (sample_data ! 2) = JNum (Fin 90)"
    by (simp add: sample_data_def sample_raw_def normalize_row_def mk_raw_def)
  note t = default_range_excludes [of ref_runtime sample_data initial_state]
  from t have c: "\<forall>r x rows. filtered_rows ref_runtime (initial_state\<lparr> data := sample_data \<rparr>) = Inr rows
         \<and> SCORE r = JNum (Fin x) \<and> (x < 40 \<or> 80 < x) \<longrightarrow> r \<notin> set rows"
    by blast
  from t have d: "\<forall>st' rows r. filtered_rows ref_runtime st' = Inr rows \<and> r \<in> set rows \<longrightarrow>
         in_temperature_range ref_runtime (fst (temperatureRange st')) (snd (temperatureRange st')) r"
    by blast
  have e0: "sample_data ! 0 \<notin> set [sample_data ! 1]"
    using c [rule_format, of "[sample_data ! 1]" "sample_data ! 0" 30] sample_filtered s0 by simp
  have e2: "sample_data ! 2 \<notin> set [sample_data ! 1]"
    using c [rule_format, of "[sample_data ! 1]" "sample_data ! 2" 90] sample_filtered s2 by simp
  have e1: "in_temperature_range ref_runtime (JNum (Fin 40)) (JNum (Fin 80)) (sample_data ! 1)"
    using d [rule_format, of "initial_state\<lparr> data := sample_data \<rparr>" "[sample_data ! 1]" "sample_data ! 1"]
      sample_filtered by (simp add: initial_state_def)
  from sample_filtered s0 s2 e0 e1 e2 show ?thesis by blast
qed

section \<open>Map bounds\<close>












section \<open>Properties of the sort\<close>

lemma num_lt_irrefl: "\<not> num_lt x x"
  by (cases x) simp_all






lemma set_sort_insert: "set (sort_insert cmp x ys) = insert x (set ys)"
  by (induction ys) auto

lemma set_Array_sort: "set (Array_sort cmp xs) = set xs"
  by (induction xs) (simp_all add: set_sort_insert)









lemma sort_insert_map:
  assumes "\<And>a b. cmp (g a) (g b) = cmp a b"
  shows "sort_insert cmp (g x) (map g ys) = map g (sort_insert cmp x ys)"
  by (induction ys) (simp_all add: assms)

lemma Array_sort_map:
  assumes "\<And>a b. cmp (g a) (g b) = cmp a b"
  shows "Array_sort cmp (map g xs) = map g (Array_sort cmp xs)"
  by (induction xs) (simp_all add: sort_insert_map [where cmp = cmp and g = g, OF assms])

lemma sorted_wrt_sort_insert:
  assumes tot: "\<And>a b. a \<in> A \<Longrightarrow> b \<in> A \<Longrightarrow> \<not> cmp a b \<le> 0 \<Longrightarrow> R b a"
    and le: "\<And>a b. a \<in> A \<Longrightarrow> b \<in> A \<Longrightarrow> cmp a b \<le> 0 \<Longrightarrow> R a b"
    and tr: "\<And>a b c. a \<in> A \<Longrightarrow> b \<in> A \<Longrightarrow> c \<in> A \<Longrightarrow> R a b \<Longrightarrow> R b c \<Longrightarrow> R a c"
  shows "sorted_wrt R ys \<Longrightarrow> x \<in> A \<Longrightarrow> set ys \<subseteq> A \<Longrightarrow> sorted_wrt R (sort_insert cmp x ys)"
proof (induction ys)
  case Nil
  show ?case by simp
next
  case (Cons y ys)
  from Cons.prems have xA: "x \<in> A" and yA: "y \<in> A" and ysA: "set ys \<subseteq> A"
    and sy: "\<forall>z\<in>set ys. R y z" and ss: "sorted_wrt R ys"
    by simp_all
  show ?case
  proof (cases "cmp x y \<le> 0")
    case True
    have xy: "R x y" by (rule le [OF xA yA True])
    have "R x z" if z: "z \<in> set ys" for z
    proof (rule tr [OF xA yA _ xy])
      show "z \<in> A" using z ysA by blast
      show "R y z" using z sy by blast
    qed
    then have "\<forall>z\<in>set ys. R x z" by blast
    with xy sy ss True show ?thesis by simp
  next
    case False
    have yx: "R y x" by (rule tot [OF xA yA False])
    have "sorted_wrt R (sort_insert cmp x ys)"
      by (rule Cons.IH [OF ss xA ysA])
    with yx sy False show ?thesis
      by (simp add: set_sort_insert)
  qed
qed

lemma sorted_wrt_Array_sort:
  assumes tot: "\<And>a b. a \<in> A \<Longrightarrow> b \<in> A \<Longrightarrow> \<not> cmp a b \<le> 0 \<Longrightarrow> R b a"
    and le: "\<And>a b. a \<in> A \<Longrightarrow> b \<in> A \<Longrightarrow> cmp a b \<le> 0 \<Longrightarrow> R a b"
    and tr: "\<And>a b c. a \<in> A \<Longrightarrow> b \<in> A \<Longrightarrow> c \<in> A \<Longrightarrow> R a b \<Longrightarrow> R b c \<Longrightarrow> R a c"
  shows "set xs \<subseteq> A \<Longrightarrow> sorted_wrt R (Array_sort cmp xs)"
proof (induction xs)
  case Nil
  show ?case by simp
next
  case (Cons x xs)
  from Cons.prems have xA: "x \<in> A" and xsA: "set xs \<subseteq> A" by simp_all
  have s1: "sorted_wrt R (Array_sort cmp xs)"
    by (rule Cons.IH [OF xsA])
  have s2: "set (Array_sort cmp xs) \<subseteq> A"
    using xsA by (simp add: set_Array_sort)
  have "sorted_wrt R (sort_insert cmp x (Array_sort cmp xs))"
    using tot le tr s1 xA s2 by (rule sorted_wrt_sort_insert)
  then show ?case by simp
qed

lemma js_lt_JNum: "js_lt rt (JNum a) (JNum b) = num_lt a b"
  by (cases a; cases b) (simp_all add: js_lt_def)

lemma js_gt_JNum: "js_gt rt (JNum a) (JNum b) = num_lt b a"
  by (cases a; cases b) (simp_all add: js_gt_def)

lemma num_lt_asym: "num_lt a b \<Longrightarrow> \<not> num_lt b a"
  by (cases a; cases b) simp_all

lemma num_lt_trans_neg:
  "a \<noteq> NaN \<Longrightarrow> b \<noteq> NaN \<Longrightarrow> c \<noteq> NaN \<Longrightarrow> \<not> num_lt b a \<Longrightarrow> \<not> num_lt c b \<Longrightarrow> \<not> num_lt c a"
  by (cases a; cases b; cases c) simp_all

lemma compare_rows_date:
  "compare_rows rt K_date d a b =
     (if num_lt (row_time rt (UNIX_TIME a)) (row_time rt (UNIX_TIME b)) then (if d = asc then -1 else 1)
      else if num_lt (row_time rt (UNIX_TIME b)) (row_time rt (UNIX_TIME a)) then (if d = asc then 1 else -1)
      else 0)"
  by (simp add: compare_rows_def sort_value_def js_lt_JNum js_gt_JNum)

lemma compare_rows_date_update:
  "compare_rows rt K_date d (a\<lparr> date := s \<rparr>) (b\<lparr> date := t \<rparr>) = compare_rows rt K_date d a b"
  by (simp add: compare_rows_date)

lemma date_sorted_asc:
  assumes "\<forall>r\<in>set rows. row_time rt (UNIX_TIME r) \<noteq> NaN"
  shows "sorted_wrt (\<lambda>a b. \<not> num_lt (row_time rt (UNIX_TIME b)) (row_time rt (UNIX_TIME a)))
           (Array_sort (compare_rows rt K_date asc) rows)"
proof (rule sorted_wrt_Array_sort [where A = "set rows"])
  fix a b c assume "a \<in> set rows" "b \<in> set rows" "c \<in> set rows"
    and "\<not> num_lt (row_time rt (UNIX_TIME b)) (row_time rt (UNIX_TIME a))"
    and "\<not> num_lt (row_time rt (UNIX_TIME c)) (row_time rt (UNIX_TIME b))"
  with assms show "\<not> num_lt (row_time rt (UNIX_TIME c)) (row_time rt (UNIX_TIME a))"
    using num_lt_trans_neg by blast
next
  fix a b assume "\<not> compare_rows rt K_date asc a b \<le> 0"
  then show "\<not> num_lt (row_time rt (UNIX_TIME a)) (row_time rt (UNIX_TIME b))"
    by (auto simp: compare_rows_date split: if_splits)
next
  fix a b assume "compare_rows rt K_date asc a b \<le> 0"
  then show "\<not> num_lt (row_time rt (UNIX_TIME b)) (row_time rt (UNIX_TIME a))"
    by (auto simp: compare_rows_date dest: num_lt_asym split: if_splits)
qed simp

lemma date_sorted_desc:
  assumes "\<forall>r\<in>set rows. row_time rt (UNIX_TIME r) \<noteq> NaN"
  shows "sorted_wrt (\<lambda>a b. \<not> num_lt (row_time rt (UNIX_TIME a)) (row_time rt (UNIX_TIME b)))
           (Array_sort (compare_rows rt K_date desc) rows)"
proof (rule sorted_wrt_Array_sort [where A = "set rows"])
  fix a b c assume "a \<in> set rows" "b \<in> set rows" "c \<in> set rows"
    and "\<not> num_lt (row_time rt (UNIX_TIME a)) (row_time rt (UNIX_TIME b))"
    and "\<not> num_lt (row_time rt (UNIX_TIME b)) (row_time rt (UNIX_TIME c))"
  with assms show "\<not> num_lt (row_time rt (UNIX_TIME a)) (row_time rt (UNIX_TIME c))"
    using num_lt_trans_neg by blast
next
  fix a b assume "\<not> compare_rows rt K_date desc a b \<le> 0"
  then show "\<not> num_lt (row_time rt (UNIX_TIME b)) (row_time rt (UNIX_TIME a))"
    by (auto simp: compare_rows_date dest: num_lt_asym split: if_splits)
next
  fix a b assume "compare_rows rt K_date desc a b \<le> 0"
  then show "\<not> num_lt (row_time rt (UNIX_TIME a)) (row_time rt (UNIX_TIME b))"
    by (auto simp: compare_rows_date dest: num_lt_asym split: if_splits)
qed simp

text \<open>
  C2 (as the code has it). On the \<^verbatim>\<open>date\<close> key the comparator compares the time values
  of \<^verbatim>\<open>new Date(UNIX_TIME * 1000)\<close>, taken from the \<^verbatim>\<open>UNIX_TIME\<close> field of each row. The
  stored date string plays no part: rewriting the date strings of the rows commutes with
  the sort. When every such time value is a number, the output is in non-decreasing order
  of it for \<open>asc\<close> and in non-increasing order for \<open>desc\<close>.
\<close>

theorem date_sort_by_unix_time:
  assumes "key cfg = Some K_date"
  shows "(\<forall>a b. compare_rows rt K_date (direction cfg) a b =
            (if num_lt (row_time rt (UNIX_TIME a)) (row_time rt (UNIX_TIME b))
               then (if direction cfg = asc then -1 else 1)
             else if num_lt (row_time rt (UNIX_TIME b)) (row_time rt (UNIX_TIME a))
               then (if direction cfg = asc then 1 else -1)
             else 0))
     \<and> (\<forall>f. getSortedData rt cfg (map (\<lambda>r. r\<lparr> date := f r \<rparr>) rows)
              = map (\<lambda>r. r\<lparr> date := f r \<rparr>) (getSortedData rt cfg rows))
     \<and> ((\<forall>r\<in>set rows. row_time rt (UNIX_TIME r) \<noteq> NaN) \<and> direction cfg = asc \<longrightarrow>
          sorted_wrt (\<lambda>a b. \<not> num_lt (row_time rt (UNIX_TIME b)) (row_time rt (UNIX_TIME a)))
            (getSortedData rt cfg rows))
     \<and> ((\<forall>r\<in>set rows. row_time rt (UNIX_TIME r) \<noteq> NaN) \<and> direction cfg = desc \<longrightarrow>
          sorted_wrt (\<lambda>a b. \<not> num_lt (row_time rt (UNIX_TIME a)) (row_time rt (UNIX_TIME b)))
            (getSortedData rt cfg rows))"
proof -
  have m: "getSortedData rt cfg (map (\<lambda>r. r\<lparr> date := f r \<rparr>) rows)
              = map (\<lambda>r. r\<lparr> date := f r \<rparr>) (getSortedData rt cfg rows)" for f
    using assms by (simp add: getSortedData_def Array_sort_map compare_rows_date_update)
  have s: "getSortedData rt cfg rows = Array_sort (compare_rows rt K_date (direction cfg)) rows"
    using assms by (simp add: getSortedData_def)
  have c: "\<forall>a b. compare_rows rt K_date (direction cfg) a b =
            (if num_lt (row_time rt (UNIX_TIME a)) (row_time rt (UNIX_TIME b))
               then (if direction cfg = asc then -1 else 1)
             else if num_lt (row_time rt (UNIX_TIME b)) (row_time rt (UNIX_TIME a))
               then (if direction cfg = asc then 1 else -1)
             else 0)"
    by (simp only: compare_rows_date) simp
  have u: "(\<forall>r\<in>set rows. row_time rt (UNIX_TIME r) \<noteq> NaN) \<and> direction cfg = asc \<longrightarrow>
          sorted_wrt (\<lambda>a b. \<not> num_lt (row_time rt (UNIX_TIME b)) (row_time rt (UNIX_TIME a)))
            (getSortedData rt cfg rows)"
    unfolding s using date_sorted_asc [of rows rt] by auto
  have d: "(\<forall>r\<in>set rows. row_time rt (UNIX_TIME r) \<noteq> NaN) \<and> direction cfg = desc \<longrightarrow>
          sorted_wrt (\<lambda>a b. \<not> num_lt (row_time rt (UNIX_TIME a)) (row_time rt (UNIX_TIME b)))
            (getSortedData rt cfg rows)"
    unfolding s using date_sorted_desc [of rows rt] by auto
  from m have m': "\<forall>f. getSortedData rt cfg (map (\<lambda>r. r\<lparr> date := f r \<rparr>) rows)
              = map (\<lambda>r. r\<lparr> date := f r \<rparr>) (getSortedData rt cfg rows)"
    by (rule allI)
  from c m' u d show ?thesis
    by (intro conjI)
qed

lemma subsecond_times:
  "map (\<lambda>r. row_time ref_runtime (UNIX_TIME r)) subsecond_rows = [Fin 1610701200700, Fin 1610701200200]"
  by (simp add: subsecond_rows_def normalize_row_def mk_raw_def row_time_def TimeClip_def)

lemma rt_locale: "DateToLocaleString ref_runtime = ref_DateToLocaleString"
  by (simp add: ref_runtime_def)

lemma locale_string_700: "ref_DateToLocaleString 1610701200700 = ''1/15/2021, 9:00:00 AM''"
  by code_simp

lemma locale_string_200: "ref_DateToLocaleString 1610701200200 = ''1/15/2021, 9:00:00 AM''"
  by code_simp

lemma subsecond_dates:
  "map date subsecond_rows = [''1/15/2021, 9:00:00 AM'', ''1/15/2021, 9:00:00 AM'']"
  by (simp add: subsecond_rows_def normalize_row_def mk_raw_def row_time_def TimeClip_def
      Date_toLocaleString_def rt_locale locale_string_700 locale_string_200)

lemma subsecond_sorted:
  "getSortedData ref_runtime \<lparr> key = Some K_date, direction = asc \<rparr> subsecond_rows
     = [subsecond_rows ! 1, subsecond_rows ! 0]"
proof -
  define r0 r1 where "r0 = subsecond_rows ! 0" and "r1 = subsecond_rows ! 1"
  have sub: "subsecond_rows = [r0, r1]"
    by (simp add: subsecond_rows_def r0_def r1_def)
  have "row_time ref_runtime (UNIX_TIME r0) = Fin 1610701200700"
    and "row_time ref_runtime (UNIX_TIME r1) = Fin 1610701200200"
    using subsecond_times by (simp_all add: sub)
  then have "compare_rows ref_runtime K_date asc r0 r1 = 1"
    by (simp add: compare_rows_date)
  then have "getSortedData ref_runtime \<lparr> key = Some K_date, direction = asc \<rparr> [r0, r1] = [r1, r0]"
    by (simp add: getSortedData_def)
  then show ?thesis
    unfolding sub by simp
qed

theorem date_sort_by_unix_time_witness:
  "getSortedData ref_runtime \<lparr> key = Some K_date, direction = asc \<rparr> subsecond_rows
     = [subsecond_rows ! 1, subsecond_rows ! 0]
   \<and> sorted_wrt (\<lambda>a b. \<not> num_lt (row_time ref_runtime (UNIX_TIME b)) (row_time ref_runtime (UNIX_TIME a)))
       [subsecond_rows ! 1, subsecond_rows ! 0]
   \<and> map (\<lambda>r. row_time ref_runtime (UNIX_TIME r)) subsecond_rows
       = [Fin 1610701200700, Fin 1610701200200]"
proof -
  have n: "\<forall>r\<in>set subsecond_rows. row_time ref_runtime (UNIX_TIME r) \<noteq> NaN"
  proof
    fix r assume "r \<in> set subsecond_rows"
    then have "row_time ref_runtime (UNIX_TIME r)
        \<in> set (map (\<lambda>r. row_time ref_runtime (UNIX_TIME r)) subsecond_rows)"
      by simp
    then show "row_time ref_runtime (UNIX_TIME r) \<noteq> NaN"
      unfolding subsecond_times by auto
  qed
  have k: "key \<lparr> key = Some K_date, direction = asc \<rparr> = Some K_date"
    by simp
  note t = date_sort_by_unix_time
      [of "\<lparr> key = Some K_date, direction = asc \<rparr>" ref_runtime subsecond_rows, OF k]
  from t [THEN conjunct2, THEN conjunct2, THEN conjunct1] n
  have "sorted_wrt (\<lambda>a b. \<not> num_lt (row_time ref_runtime (UNIX_TIME b)) (row_time ref_runtime (UNIX_TIME a)))
          (getSortedData ref_runtime \<lparr> key = Some K_date, direction = asc \<rparr> subsecond_rows)"
    by simp
  with subsecond_sorted subsecond_times show ?thesis
    by simp
qed

text \<open>
  C2 as stated fails: two rows whose times differ by less than a second print the same
  date string, so comparing the parsed strings leaves them in input order, while
  \<open>getSortedData\<close> puts the earlier one first.
\<close>

theorem date_sort_not_by_display_time:
  "getSortedData ref_runtime \<lparr> key = Some K_date, direction = asc \<rparr> subsecond_rows
     \<noteq> spec_sort_by_display ref_runtime asc subsecond_rows"
proof -
  define r0 r1 where "r0 = subsecond_rows ! 0" and "r1 = subsecond_rows ! 1"
  have sub: "subsecond_rows = [r0, r1]"
    by (simp add: subsecond_rows_def r0_def r1_def)
  have "date r0 = date r1"
    using subsecond_dates by (simp add: sub)
  then have "spec_compare_by_display ref_runtime asc r0 r1 = 0"
    by (simp add: spec_compare_by_display_def spec_display_time_def js_lt_JNum js_gt_JNum num_lt_irrefl)
  then have d: "spec_sort_by_display ref_runtime asc [r0, r1] = [r0, r1]"
    by (simp add: spec_sort_by_display_def)
  have "UNIX_TIME r0 \<noteq> UNIX_TIME r1"
    by (simp add: r0_def r1_def subsecond_rows_def normalize_row_def mk_raw_def)
  then have ne: "r0 \<noteq> r1" by auto
  have g: "getSortedData ref_runtime \<lparr> key = Some K_date, direction = asc \<rparr> subsecond_rows = [r1, r0]"
    using subsecond_sorted by (simp add: r0_def r1_def)
  have "spec_sort_by_display ref_runtime asc subsecond_rows = [r0, r1]"
    using d by (simp only: sub)
  with g ne show ?thesis by simp
qed

section \<open>Properties of the filter\<close>

lemma filter_e_total:
  "\<forall>x\<in>set xs. \<exists>b. p x = Inr b \<Longrightarrow> \<exists>ys. filter_e p xs = Inr ys"
  by (induction xs) (auto split: sum.splits)

lemma toString_present:
  "v \<noteq> JNull \<Longrightarrow> v \<noteq> JUndefined \<Longrightarrow> \<exists>s. toString_method rt v = Inr s"
  by (cases v) simp_all

lemma field_includes_present:
  "v \<noteq> JNull \<Longrightarrow> v \<noteq> JUndefined \<Longrightarrow> \<exists>b. field_includes rt v s = Inr b"
  using toString_present [of v rt] by (auto simp: field_includes_def)

lemma or_chain_total: "\<forall>x\<in>set xs. \<exists>b. x = Inr b \<Longrightarrow> \<exists>b. or_chain xs = Inr b"
  by (induction xs rule: or_chain.induct) auto

lemma search_matches_present:
  assumes "fields_present r"
  shows "\<exists>b. search_matches rt s r = Inr b"
  unfolding search_matches_def
proof (rule or_chain_total)
  show "\<forall>x\<in>set [Inr (str_includes (toLowerCase (date r)) s), field_includes rt (SCORE r) s,
                field_includes rt (POSITION_YARDS r) s, field_includes rt (LATITUDE r) s,
                field_includes rt (LONGITUDE r) s, field_includes rt (RECORDING_ID r) s].
          \<exists>b. x = Inr b"
    using assms field_includes_present [of _ rt s] by (auto simp: fields_present_def has_toString_def)
qed

lemma filter_if: "(if c then filter P xs else xs) = filter (\<lambda>x. c \<longrightarrow> P x) xs"
  by simp

lemma filtered_rows_unfold:
  "filtered_rows rt st =
     (if searchTerm st \<noteq> [] then
        filter_e (search_matches rt (toLowerCase (searchTerm st))) (filter (passes_plain rt st) (data st))
      else Inr (filter (passes_plain rt st) (data st)))"
proof -
  have "filter (passes_plain rt st) (data st) =
     filter (in_temperature_range rt (fst (temperatureRange st)) (snd (temperatureRange st)))
       (filter (\<lambda>r. selectedSeverity st \<noteq> ''all'' \<longrightarrow> sev_name (severity r) = selectedSeverity st)
         (filter (\<lambda>r. dateTo st \<noteq> [] \<longrightarrow>
              js_le rt (JNum (Date_string_time rt (date r))) (JNum (Date_string_time rt (dateTo st))))
           (filter (\<lambda>r. dateFrom st \<noteq> [] \<longrightarrow>
                js_ge rt (JNum (Date_string_time rt (date r))) (JNum (Date_string_time rt (dateFrom st))))
             (data st))))"
    by (auto simp: passes_plain_def intro: filter_cong)
  then show ?thesis
    by (simp add: filtered_rows_def Let_def)
qed

text \<open>
  C3 (as the code has it). The filter effect does not throw when the search term is empty,
  nor when the five searched fields of every base row are neither \<^verbatim>\<open>null\<close> nor
  \<^verbatim>\<open>undefined\<close>; whenever it does not throw, its result is the base rows that pass the
  date, severity and temperature steps and, with a search term, the search. A score that
  does not convert to a number fails the temperature step as soon as one bound is a
  number, passes it when both bounds are open, and leaves the other steps alone.
\<close>

theorem filter_raises_only_in_search:
  "(searchTerm st = [] \<longrightarrow> filtered_rows rt st = Inr (filter (passes_plain rt st) (data st)))
   \<and> ((\<forall>r\<in>set (data st). fields_present r) \<longrightarrow>
        filtered_rows rt st =
          Inr (filter (\<lambda>r. passes_plain rt st r \<and>
                  (searchTerm st = [] \<or> search_matches rt (toLowerCase (searchTerm st)) r = Inr True))
                (data st)))
   \<and> (\<forall>rows. filtered_rows rt st = Inr rows \<longrightarrow>
        rows = filter (\<lambda>r. passes_plain rt st r \<and>
                  (searchTerm st = [] \<or> search_matches rt (toLowerCase (searchTerm st)) r = Inr True))
                (data st))
   \<and> (\<forall>r lo hi. ToNumber rt (SCORE r) = NaN \<longrightarrow>
        \<not> in_temperature_range rt (JNum lo) hi r \<and> \<not> in_temperature_range rt hi (JNum lo) r
        \<and> in_temperature_range rt (JStr []) (JStr []) r)"
proof -
  let ?s = "search_matches rt (toLowerCase (searchTerm st))"
  let ?P = "\<lambda>r. passes_plain rt st r \<and> (searchTerm st = [] \<or> ?s r = Inr True)"
  have a: "searchTerm st = [] \<longrightarrow> filtered_rows rt st = Inr (filter (passes_plain rt st) (data st))"
    by (simp add: filtered_rows_unfold)
  have c: "rows = filter ?P (data st)" if "filtered_rows rt st = Inr rows" for rows
  proof (cases "searchTerm st = []")
    case True
    with that show ?thesis by (simp add: filtered_rows_unfold)
  next
    case False
    with that have "filter_e ?s (filter (passes_plain rt st) (data st)) = Inr rows"
      by (simp add: filtered_rows_unfold)
    from filter_e_Inr [OF this] False show ?thesis
      by (simp add: conj_commute)
  qed
  have b: "filtered_rows rt st = Inr (filter ?P (data st))" if p: "\<forall>r\<in>set (data st). fields_present r"
  proof -
    have "\<forall>r\<in>set (filter (passes_plain rt st) (data st)). \<exists>b. ?s r = Inr b"
      using p search_matches_present by auto
    then have "\<exists>ys. filter_e ?s (filter (passes_plain rt st) (data st)) = Inr ys"
      by (rule filter_e_total)
    then have "\<exists>rows. filtered_rows rt st = Inr rows"
      by (simp add: filtered_rows_unfold)
    then obtain rows where "filtered_rows rt st = Inr rows" ..
    with c show ?thesis by simp
  qed
  have d: "\<not> in_temperature_range rt (JNum lo) hi r \<and> \<not> in_temperature_range rt hi (JNum lo) r
        \<and> in_temperature_range rt (JStr []) (JStr []) r"
    if "ToNumber rt (SCORE r) = NaN" for r lo hi
    using that by (cases "SCORE r") (simp_all add: in_temperature_range_def js_ge_def js_le_def)
  from a b c d show ?thesis by blast
qed

lemma sample_data_eval:
  "sample_data =
     [ \<lparr> UNIX_TIME = JNum (Fin 1610701200), LATITUDE = JNum (Fin 10), LONGITUDE = JNum (Fin (- 5)),
         POSITION_YARDS = JNum (Fin 1200), SCORE = JNum (Fin 30), RECORDING_ID = JStr ''REC-A'',
         date = ''1/15/2021, 9:00:00 AM'', severity = low \<rparr>,
       \<lparr> UNIX_TIME = JNum (Fin 1610704800), LATITUDE = JNum (Fin 20), LONGITUDE = JNum (Fin 0),
         POSITION_YARDS = JNum (Fin 1200), SCORE = JNum (Fin 60), RECORDING_ID = JStr ''REC-B'',
         date = ''1/15/2021, 10:00:00 AM'', severity = medium \<rparr>,
       \<lparr> UNIX_TIME = JNum (Fin 1610708400), LATITUDE = JNum (Fin 30), LONGITUDE = JNum (Fin 5),
         POSITION_YARDS = JNum (Fin 1200), SCORE = JNum (Fin 90), RECORDING_ID = JStr ''REC-C'',
         date = ''1/15/2021, 11:00:00 AM'', severity = high \<rparr> ]"
  by code_simp

lemma null_id_rows_eval:
  "null_id_rows =
     [ \<lparr> UNIX_TIME = JNum (Fin 1610704800), LATITUDE = JNum (Fin 20), LONGITUDE = JNum (Fin 0),
         POSITION_YARDS = JNum (Fin 1200), SCORE = JNum (Fin 60), RECORDING_ID = JNull,
         date = ''1/15/2021, 10:00:00 AM'', severity = medium \<rparr> ]"
  by code_simp

lemma sample_fields_present: "list_all fields_present sample_data"
  by (simp add: sample_data_def sample_raw_def normalize_row_def mk_raw_def fields_present_def
      has_toString_def)

lemma sample_search_60:
  "filtered_rows ref_runtime (initial_state\<lparr> data := sample_data, searchTerm := ''60'' \<rparr>)
     = Inr [sample_data ! 1]"
  unfolding sample_data_eval by code_simp

lemma nan_score: "ToNumber ref_runtime (SCORE nan_score_row) = NaN"
proof -
  have "StringToNumber ref_runtime ''n/a'' = NaN"
    by code_simp
  then show ?thesis
    by (simp add: nan_score_row_def normalize_row_def mk_raw_def)
qed

theorem filter_raises_only_in_search_witness:
  "filtered_rows ref_runtime (initial_state\<lparr> data := sample_data \<rparr>)
     = Inr (filter (passes_plain ref_runtime (initial_state\<lparr> data := sample_data \<rparr>)) sample_data)
   \<and> list_all fields_present sample_data
   \<and> filtered_rows ref_runtime (initial_state\<lparr> data := sample_data, searchTerm := ''60'' \<rparr>)
     = Inr [sample_data ! 1]
   \<and> [sample_data ! 1]
     = filter (\<lambda>r. passes_plain ref_runtime (initial_state\<lparr> data := sample_data, searchTerm := ''60'' \<rparr>) r
                 \<and> search_matches ref_runtime (toLowerCase ''60'') r = Inr True) sample_data
   \<and> ToNumber ref_runtime (SCORE nan_score_row) = NaN
   \<and> \<not> in_temperature_range ref_runtime (JNum (Fin 40)) (JNum (Fin 80)) nan_score_row
   \<and> in_temperature_range ref_runtime (JStr []) (JStr []) nan_score_row"
proof -
  note t1 = filter_raises_only_in_search [of "initial_state\<lparr> data := sample_data \<rparr>" ref_runtime]
  note t2 = filter_raises_only_in_search
      [of "initial_state\<lparr> data := sample_data, searchTerm := ''60'' \<rparr>" ref_runtime]
  have e: "searchTerm (initial_state\<lparr> data := sample_data \<rparr>) = []"
    by (simp add: initial_state_def)
  from t1 [THEN conjunct1] e
  have a: "filtered_rows ref_runtime (initial_state\<lparr> data := sample_data \<rparr>)
     = Inr (filter (passes_plain ref_runtime (initial_state\<lparr> data := sample_data \<rparr>)) sample_data)"
    by simp
  have p: "\<forall>r\<in>set (data (initial_state\<lparr> data := sample_data, searchTerm := ''60'' \<rparr>)). fields_present r"
    using sample_fields_present by (simp add: list_all_iff)
  from t2 [THEN conjunct2, THEN conjunct1, THEN mp, OF p] sample_search_60
  have b: "[sample_data ! 1]
     = filter (\<lambda>r. passes_plain ref_runtime (initial_state\<lparr> data := sample_data, searchTerm := ''60'' \<rparr>) r
                 \<and> search_matches ref_runtime (toLowerCase ''60'') r = Inr True) sample_data"
    by simp
  from t1 [THEN conjunct2, THEN conjunct2, THEN conjunct2, rule_format, OF nan_score, of "Fin 40" "JNum (Fin 80)"]
  have c: "\<not> in_temperature_range ref_runtime (JNum (Fin 40)) (JNum (Fin 80)) nan_score_row
        \<and> in_temperature_range ref_runtime (JStr []) (JStr []) nan_score_row"
    by simp
  from a b c sample_fields_present sample_search_60 nan_score show ?thesis
    by (intro conjI) simp_all
qed

text \<open>
  C3 as stated fails: a row whose \<^verbatim>\<open>RECORDING_ID\<close> cell was empty holds \<^verbatim>\<open>null\<close> there,
  and with the search term \<^verbatim>\<open>rec\<close>, matched by no earlier field, the call
  \<^verbatim>\<open>row.RECORDING_ID.toString()\<close> throws.
\<close>

theorem filter_raises_on_null_field:
  "filtered_rows ref_runtime (initial_state\<lparr> data := null_id_rows, searchTerm := ''rec'' \<rparr>)
     = Inl TypeError"
  unfolding null_id_rows_eval by code_simp

text \<open>
  Every match of the code is a match in the sense of the specification; the converse
  fails, as the next theorem shows.
\<close>

lemma lower_char_idem: "lower_char (lower_char c) = lower_char c"
proof -
  have "(of_char (char_of (of_char c + 32 :: nat)) :: nat) = of_char c + 32"
    if "(of_char c :: nat) \<le> 90"
    using that by simp
  then show ?thesis
    by (auto simp: lower_char_def Let_def)
qed

lemma toLowerCase_idem: "toLowerCase (toLowerCase s) = toLowerCase s"
  by (simp add: toLowerCase_def lower_char_idem)

lemma starts_with_map: "starts_with s t \<Longrightarrow> starts_with (map f s) (map f t)"
  by (induction s t rule: starts_with.induct) auto

lemma str_includes_map: "str_includes s t \<Longrightarrow> str_includes (map f s) (map f t)"
proof (induction s)
  case Nil
  then show ?case by simp
next
  case (Cons d s)
  then show ?case
    using starts_with_map [of "d # s" t f] by auto
qed

lemma str_includes_lower:
  assumes "str_includes s (toLowerCase term)"
  shows "str_includes (toLowerCase s) (toLowerCase term)"
proof -
  from assms have "str_includes (toLowerCase s) (toLowerCase (toLowerCase term))"
    unfolding toLowerCase_def by (rule str_includes_map)
  then show ?thesis
    by (simp only: toLowerCase_idem)
qed

lemma field_includes_sound:
  "field_includes rt v (toLowerCase term) = Inr True \<Longrightarrow> spec_field_matches rt term v"
  by (auto simp: field_includes_def spec_field_matches_def str_includes_lower split: sum.splits)

lemma or_chain_True: "or_chain xs = Inr True \<Longrightarrow> Inr True \<in> set xs"
  by (induction xs rule: or_chain.induct) (auto split: if_splits)

lemma search_matches_sound:
  assumes "search_matches rt (toLowerCase term) r = Inr True"
  shows "spec_search_matches rt term r"
proof -
  from or_chain_True [OF assms [unfolded search_matches_def]]
  show ?thesis
    by (auto simp: spec_search_matches_def dest: field_includes_sound [OF sym])
qed

text \<open>
  C5. The search is not case-insensitive on the five fields after the date: the term is
  lowered, the field is not. With the rows \<^verbatim>\<open>REC-A\<close>, \<^verbatim>\<open>REC-B\<close>, \<^verbatim>\<open>REC-C\<close> and the
  search term \<^verbatim>\<open>REC-B\<close>, the row \<^verbatim>\<open>REC-B\<close> passes every other step and contains the term
  in its \<^verbatim>\<open>RECORDING_ID\<close>, so the search of the specification matches it, yet
  \<open>search_matches\<close> answers false and the filtered rows are empty.
\<close>

theorem search_misses_uppercase_field:
  "filtered_rows ref_runtime (initial_state\<lparr> data := sample_data, searchTerm := ''REC-B'' \<rparr>) = Inr []
   \<and> search_matches ref_runtime (toLowerCase ''REC-B'') (sample_data ! 1) = Inr False
   \<and> spec_search_matches ref_runtime ''REC-B'' (sample_data ! 1)
   \<and> passes_plain ref_runtime (initial_state\<lparr> data := sample_data, searchTerm := ''REC-B'' \<rparr>) (sample_data ! 1)
   \<and> RECORDING_ID (sample_data ! 1) = JStr ''REC-B''"
  unfolding sample_data_eval by code_simp

end
